theory Spec2Isabelle
  imports Main
begin

section \<open>Values shared by the OTP service and the guard\<close>

text \<open>
  A JavaScript exception is a value. \<open>Error m\<close> is \<^verbatim>\<open>Error(m)\<close> as the guard throws
  it; \<open>TypeError m\<close> is the fault the runtime raises when a property is read on
  \<^verbatim>\<open>null\<close>, and what a library call may raise on an argument outside its domain.
  Both carry their \<^verbatim>\<open>message\<close>.
\<close>

datatype fault = Error string | TypeError string

fun message :: "fault \<Rightarrow> string" where
  "message (Error m) = m"
| "message (TypeError m) = m"

text \<open>The members of \<^verbatim>\<open>ErrorCode\<close> that the OTP service returns.\<close>

datatype ErrorCode = LOGIN_NOT_FOUND | LOGIN_ALREADY_HAS_OTP | TOKEN_OTP_INVALID

text \<open>
  \<^verbatim>\<open>TupleResult<T, E>\<close> is the pair \<^verbatim>\<open>[value, errorCode]\<close>; \<^verbatim>\<open>null\<close> in a
  component is \<open>None\<close>.
\<close>

type_synonym ('a, 'e) TupleResult = "'a option \<times> 'e option"

text \<open>
  An \<^verbatim>\<open>async\<close> function either rejects with a fault (\<open>Inl\<close>) or resolves to a
  value (\<open>Inr\<close>).
\<close>

type_synonym 'a promise = "fault + 'a"

section \<open>The login store\<close>

text \<open>
  The fields of \<^verbatim>\<open>LoginEntity\<close> that the service reads and writes. \<^verbatim>\<open>otpToken\<close>
  is nullable.
\<close>

record LoginEntity =
  entity_id :: string
  email :: string
  otpToken :: "string option"

text \<open>
  The repository: \<^verbatim>\<open>findOne({ where: { id } })\<close> is the lookup of the map (\<^verbatim>\<open>null\<close>
  is \<open>None\<close>), \<^verbatim>\<open>save(login)\<close> writes the row of the entity's id.
\<close>

type_synonym repository = "string \<rightharpoonup> LoginEntity"

definition findOne :: "repository \<Rightarrow> string \<Rightarrow> LoginEntity option" where
  "findOne repo loginId = repo loginId"

definition save :: "repository \<Rightarrow> LoginEntity \<Rightarrow> repository" where
  "save repo login = repo(entity_id login \<mapsto> login)"

section \<open>The authenticator library and the configuration\<close>

text \<open>
  \<^verbatim>\<open>authenticator\<close> (otplib) and \<^verbatim>\<open>AuthenticationModule.config.appName\<close> are not
  part of the source; they are parameters of the model.
  \<^item> \<open>check token secret\<close>: \<^verbatim>\<open>authenticator.check(token, secret)\<close> at the time of the
    call. The service passes \<^verbatim>\<open>login.otpToken\<close> as it is, so the secret may be
    \<^verbatim>\<open>null\<close>, and the library may throw.
  \<^item> \<open>generateSecret\<close>: the secret \<^verbatim>\<open>authenticator.generateSecret()\<close> returns on
    this call.
  \<^item> \<open>keyuri\<close>: \<^verbatim>\<open>authenticator.keyuri(account, issuer, secret)\<close>.
\<close>

record authenticator =
  check :: "string \<Rightarrow> string option \<Rightarrow> bool promise"
  generateSecret :: string
  keyuri :: "string \<Rightarrow> string \<Rightarrow> string \<Rightarrow> string"
  appName :: string

record SecretAndKeyUri =
  secret :: string
  keyUri :: string

section \<open>OtpService\<close>

text \<open>
  Every operation returns what the promise settles to, and the repository after the call.
\<close>

definition createOTP ::
  "authenticator \<Rightarrow> repository \<Rightarrow> string
    \<Rightarrow> (SecretAndKeyUri, ErrorCode) TupleResult promise \<times> repository" where
  "createOTP lib repo loginId =
     (case findOne repo loginId of
        None \<Rightarrow> (Inr (None, Some LOGIN_NOT_FOUND), repo)
      | Some login \<Rightarrow>
          if otpToken login \<noteq> None then (Inr (None, Some LOGIN_ALREADY_HAS_OTP), repo)
          else
            let login' = login\<lparr>otpToken := Some (generateSecret lib)\<rparr>;
                repo' = save repo login';
                uri = keyuri lib (email login') (appName lib) (generateSecret lib)
            in (Inr (Some \<lparr>secret = generateSecret lib, keyUri = uri\<rparr>, None), repo'))"

definition updateOTP ::
  "authenticator \<Rightarrow> repository \<Rightarrow> string \<Rightarrow> string
    \<Rightarrow> (SecretAndKeyUri, ErrorCode) TupleResult promise \<times> repository" where
  "updateOTP lib repo loginId token =
     (case findOne repo loginId of
        None \<Rightarrow> (Inr (None, Some LOGIN_NOT_FOUND), repo)
      | Some login \<Rightarrow>
          (case check lib token (otpToken login) of
             Inl thrown \<Rightarrow> (Inl thrown, repo)
           | Inr tokenIsValid \<Rightarrow>
               if \<not> tokenIsValid then (Inr (None, Some TOKEN_OTP_INVALID), repo)
               else
                 let login' = login\<lparr>otpToken := Some (generateSecret lib)\<rparr>;
                     repo' = save repo login';
                     uri = keyuri lib (email login') (appName lib) (generateSecret lib)
                 in (Inr (Some \<lparr>secret = generateSecret lib, keyUri = uri\<rparr>, None), repo')))"

text \<open>
  In \<^verbatim>\<open>validateOTP\<close> and \<^verbatim>\<open>removeOTP\<close> the statement
  \<^verbatim>\<open>if (!login) [null, ErrorCode.LOGIN_NOT_FOUND]\<close> builds a tuple and drops it: there is
  no \<^verbatim>\<open>return\<close>. With \<^verbatim>\<open>login\<close> being \<^verbatim>\<open>null\<close> the next statement reads
  \<^verbatim>\<open>login.otpToken\<close>, which raises a TypeError.
\<close>

definition nullLoginRead :: fault where
  "nullLoginRead = TypeError ''Cannot read properties of null (reading 'otpToken')''"

definition validateOTP ::
  "authenticator \<Rightarrow> repository \<Rightarrow> string \<Rightarrow> string
    \<Rightarrow> (bool, ErrorCode) TupleResult promise \<times> repository" where
  "validateOTP lib repo loginId token =
     (case findOne repo loginId of
        None \<Rightarrow> (Inl nullLoginRead, repo)
      | Some login \<Rightarrow>
          (case check lib token (otpToken login) of
             Inl thrown \<Rightarrow> (Inl thrown, repo)
           | Inr tokenIsValid \<Rightarrow> (Inr (Some tokenIsValid, None), repo)))"

text \<open>\<^verbatim>\<open>removeOTP\<close> never assigns \<^verbatim>\<open>login.otpToken\<close> and never calls \<^verbatim>\<open>save\<close>.\<close>

definition removeOTP ::
  "authenticator \<Rightarrow> repository \<Rightarrow> string \<Rightarrow> string
    \<Rightarrow> (bool, ErrorCode) TupleResult promise \<times> repository" where
  "removeOTP lib repo loginId token =
     (case findOne repo loginId of
        None \<Rightarrow> (Inl nullLoginRead, repo)
      | Some login \<Rightarrow>
          (case check lib token (otpToken login) of
             Inl thrown \<Rightarrow> (Inl thrown, repo)
           | Inr tokenIsValid \<Rightarrow>
               if \<not> tokenIsValid then (Inr (None, Some TOKEN_OTP_INVALID), repo)
               else (Inr (Some True, None), repo)))"

section \<open>The dynamic token guard\<close>

text \<open>
  The decoded payload of a dynamic token: \<^verbatim>\<open>type\<close>, \<^verbatim>\<open>id\<close> and \<^verbatim>\<open>pin\<close>.
\<close>

record JWTDynamicPayloadDTO =
  payload_type :: string
  payload_id :: string
  payload_pin :: string

text \<open>
  \<^verbatim>\<open>RequiredPin\<close>. The \<^verbatim>\<open>switch\<close> of the guard names three members and has a
  \<^verbatim>\<open>default\<close> branch; \<open>OTHER v\<close> is any other value the metadata may hold at run time.
\<close>

datatype RequiredPin = ANY | ONLY_EMAIL | ONLY_OTP | OTHER string

text \<open>The metadata \<^verbatim>\<open>{ step, requiredPin }\<close> that \<^verbatim>\<open>JWTDynamic\<close> attaches to a handler.\<close>

record policy =
  step :: string
  requiredPin :: RequiredPin

text \<open>
  The request: \<^verbatim>\<open>headers\<close> may be \<^verbatim>\<open>undefined\<close>; a header that is not sent is
  \<open>None\<close> in the map. \<^verbatim>\<open>processedDynamicPayloadDTO\<close> is the field the guard assigns.
\<close>

record Request =
  headers :: "(string \<rightharpoonup> string) option"
  processedDynamicPayloadDTO :: "JWTDynamicPayloadDTO option"

text \<open>
  \<^verbatim>\<open>new HttpException(response, status, { cause })\<close>; \<^verbatim>\<open>HttpStatus.UNAUTHORIZED\<close>
  is 401.
\<close>

record HttpException =
  response :: string
  status :: nat
  cause :: string

definition UNAUTHORIZED :: nat where
  "UNAUTHORIZED = 401"

text \<open>
  What the guard is constructed with and is not part of the source:
  \<^verbatim>\<open>AuthenticationModule.config.secondarySecret\<close>, the three members of
  \<^verbatim>\<open>BearerTokenProcessor\<close> (as functions of the token it was built from) and
  \<^verbatim>\<open>AuthenticationService.validatePin\<close>.
\<close>

record collaborators =
  secondarySecret :: string
  isBearerToken :: "string \<Rightarrow> bool"
  isSignatureValid :: "string \<Rightarrow> string \<Rightarrow> bool"
  payload :: "string \<Rightarrow> JWTDynamicPayloadDTO option"
  validatePin :: "string \<Rightarrow> string \<Rightarrow> bool"

text \<open>
  The calls the guard makes to the pin validator and to the OTP service, in order, with
  their arguments.
\<close>

datatype call = ValidatePin string string | ValidateOTP string string

text \<open>JavaScript truthiness of a header value: \<^verbatim>\<open>undefined\<close> and \<^verbatim>\<open>''\<close> are falsy.\<close>

definition truthy :: "string option \<Rightarrow> bool" where
  "truthy h = (case h of None \<Rightarrow> False | Some v \<Rightarrow> v \<noteq> [])"

text \<open>\<^verbatim>\<open>if (h) await f(h)\<close>: nothing is called on a falsy header.\<close>

definition ifGiven ::
  "string option \<Rightarrow> (string \<Rightarrow> bool promise \<times> call list) \<Rightarrow> bool promise \<times> call list" where
  "ifGiven h f =
     (case h of
        None \<Rightarrow> (Inr True, [])
      | Some v \<Rightarrow> if v = [] then (Inr True, []) else f v)"

definition validateOtpToken ::
  "authenticator \<Rightarrow> repository \<Rightarrow> string \<Rightarrow> string \<Rightarrow> bool promise \<times> call list" where
  "validateOtpToken lib repo loginId otp =
     ((case fst (validateOTP lib repo loginId otp) of
         Inl thrown \<Rightarrow> Inl thrown
       | Inr (tokenIsValid, _) \<Rightarrow>
           if tokenIsValid \<noteq> Some True then Inl (Error ''Invalid otp pin'') else Inr True),
      [ValidateOTP loginId otp])"

definition validateEmailToken ::
  "collaborators \<Rightarrow> string \<Rightarrow> string \<Rightarrow> bool promise \<times> call list" where
  "validateEmailToken g pin plainPin =
     (if \<not> validatePin g pin plainPin then Inl (Error ''Invalid email pin'') else Inr True,
      [ValidatePin pin plainPin])"

text \<open>
  The \<^verbatim>\<open>switch (params.requiredPin)\<close> of \<^verbatim>\<open>canActivate\<close> and the
  \<^verbatim>\<open>return true\<close> after it, on the decoded payload and the two pin headers.
\<close>

definition switchRequiredPin ::
  "collaborators \<Rightarrow> authenticator \<Rightarrow> repository \<Rightarrow> RequiredPin \<Rightarrow> JWTDynamicPayloadDTO
    \<Rightarrow> string option \<Rightarrow> string option \<Rightarrow> bool promise \<times> call list" where
  "switchRequiredPin g lib repo required dto pin otp =
     (case required of
        ONLY_EMAIL \<Rightarrow>
          if \<not> truthy pin then (Inl (Error ''No email pin given''), [])
          else
            (case ifGiven pin (validateEmailToken g (payload_pin dto)) of
               (Inl thrown, cs) \<Rightarrow> (Inl thrown, cs)
             | (Inr _, cs) \<Rightarrow> (Inr True, cs))
      | ONLY_OTP \<Rightarrow>
          if \<not> truthy otp then (Inl (Error ''No otp pin given''), [])
          else
            (case ifGiven otp (validateOtpToken lib repo (payload_id dto)) of
               (Inl thrown, cs) \<Rightarrow> (Inl thrown, cs)
             | (Inr _, cs) \<Rightarrow> (Inr True, cs))
      | ANY \<Rightarrow>
          if \<not> truthy pin \<and> \<not> truthy otp then (Inl (Error ''No pin specified''), [])
          else
            (case ifGiven pin (validateEmailToken g (payload_pin dto)) of
               (Inl thrown, cs) \<Rightarrow> (Inl thrown, cs)
             | (Inr _, cs) \<Rightarrow>
                 (case ifGiven otp (validateOtpToken lib repo (payload_id dto)) of
                    (Inl thrown, cs') \<Rightarrow> (Inl thrown, cs @ cs')
                  | (Inr _, cs') \<Rightarrow> (Inr True, cs @ cs')))
      | OTHER _ \<Rightarrow> (Inr True, []))"

text \<open>
  The body of the \<^verbatim>\<open>try\<close> block: what it returns or throws, the request after it and
  the calls made. \<^verbatim>\<open>params.step !== payload?.type\<close> holds when the payload is
  \<^verbatim>\<open>undefined\<close>, the step being a string.
\<close>

definition tryBlock ::
  "collaborators \<Rightarrow> authenticator \<Rightarrow> repository \<Rightarrow> policy \<Rightarrow> Request
    \<Rightarrow> bool promise \<times> Request \<times> call list" where
  "tryBlock g lib repo params request =
     (case headers request of
        None \<Rightarrow> (Inl (Error ''No header given''), request, [])
      | Some hs \<Rightarrow>
          (case hs ''x-temporary-authorization'' of
             None \<Rightarrow> (Inl (Error ''No authorization header given''), request, [])
           | Some token \<Rightarrow>
               if token = [] then (Inl (Error ''No authorization header given''), request, [])
               else if \<not> isBearerToken g token then
                 (Inl (Error ''JWT decode error''), request, [])
               else if \<not> isSignatureValid g token (secondarySecret g) then
                 (Inl (Error ''JWT signature error''), request, [])
               else
                 (case payload g token of
                    None \<Rightarrow> (Inl (Error ''Invalid step''), request, [])
                  | Some dto \<Rightarrow>
                      if step params \<noteq> payload_type dto then
                        (Inl (Error ''Invalid step''), request, [])
                      else
                        let request' = request\<lparr>processedDynamicPayloadDTO := Some dto\<rparr>;
                            pin = hs ''x-email-pin'';
                            otp = hs ''x-otp-pin''
                        in (case switchRequiredPin g lib repo (requiredPin params) dto pin otp of
                              (result, cs) \<Rightarrow> (result, request', cs)))))"

text \<open>
  \<^verbatim>\<open>canActivate\<close>: no metadata on the handler returns \<^verbatim>\<open>true\<close>; anything thrown in
  the \<^verbatim>\<open>try\<close> block is caught and thrown again as the HttpException, with the
  caught message as its cause.
\<close>

definition notAuthorized :: "fault \<Rightarrow> HttpException" where
  "notAuthorized thrown =
     \<lparr>response = ''Not authorized for perform action'', status = UNAUTHORIZED,
      cause = message thrown\<rparr>"

definition canActivate ::
  "collaborators \<Rightarrow> authenticator \<Rightarrow> repository \<Rightarrow> policy option \<Rightarrow> Request
    \<Rightarrow> (HttpException + bool) \<times> Request \<times> call list" where
  "canActivate g lib repo params request =
     (case params of
        None \<Rightarrow> (Inr True, request, [])
      | Some p \<Rightarrow>
          (case tryBlock g lib repo p request of
             (Inl thrown, request', cs) \<Rightarrow> (Inl (notAuthorized thrown), request', cs)
           | (Inr allowed, request', cs) \<Rightarrow> (Inr allowed, request', cs)))"

text \<open>The three components of what \<^verbatim>\<open>canActivate\<close> gives.\<close>

definition outcome :: "(HttpException + bool) \<times> Request \<times> call list \<Rightarrow> HttpException + bool" where
  "outcome r = fst r"

definition callsMade :: "(HttpException + bool) \<times> Request \<times> call list \<Rightarrow> call list" where
  "callsMade r = snd (snd r)"

text \<open>
  The guard rejects when it throws the HttpException with the fixed response and status
  401; it allows when it returns \<^verbatim>\<open>true\<close>.
\<close>

definition rejected :: "HttpException + bool \<Rightarrow> bool" where
  "rejected r =
     (case r of
        Inl e \<Rightarrow> response e = ''Not authorized for perform action'' \<and> status e = 401
      | Inr _ \<Rightarrow> False)"

definition allowed :: "HttpException + bool \<Rightarrow> bool" where
  "allowed r = (r = Inr True)"

section \<open>Sample inputs\<close>

text \<open>
  A stand-in authenticator for evaluating the operations on concrete inputs: the valid
  code of a secret is the secret's own text, and a \<^verbatim>\<open>null\<close> secret makes the check
  throw, as a base-32 decoder does on a value that is not a string.
\<close>

definition sampleCheck :: "string \<Rightarrow> string option \<Rightarrow> bool promise" where
  "sampleCheck token sec =
     (case sec of
        None \<Rightarrow> Inl (TypeError ''The first argument must be of type string'')
      | Some s \<Rightarrow> Inr (token = s))"

definition sampleLib :: authenticator where
  "sampleLib =
     \<lparr>check = sampleCheck, generateSecret = ''NEWSECRET'',
      keyuri = (\<lambda>account issuer sec. account @ ''/'' @ issuer @ ''/'' @ sec),
      appName = ''app''\<rparr>"

definition alice :: LoginEntity where
  "alice = \<lparr>entity_id = ''u1'', email = ''a@x.io'', otpToken = Some ''OLDSECRET''\<rparr>"

definition bob :: LoginEntity where
  "bob = \<lparr>entity_id = ''u2'', email = ''b@x.io'', otpToken = None\<rparr>"

definition sampleRepo :: repository where
  "sampleRepo = [''u1'' \<mapsto> alice, ''u2'' \<mapsto> bob]"

text \<open>
  Stand-ins for the guard's collaborators: every token is well formed and signed with the
  secondary secret; two tokens decode to a payload, both issued to login \<open>u1\<close> with pin
  \<open>4321\<close>, one for the step \<open>reset\<close> and one for the step \<open>login\<close>; a third is issued
  to a login that is not in the repository. The pin validator compares the two texts.
\<close>

definition samplePayload :: "string \<Rightarrow> JWTDynamicPayloadDTO option" where
  "samplePayload token =
     (if token = ''tok-reset-u1'' then
        Some \<lparr>payload_type = ''reset'', payload_id = ''u1'', payload_pin = ''4321''\<rparr>
      else if token = ''tok-login-u1'' then
        Some \<lparr>payload_type = ''login'', payload_id = ''u1'', payload_pin = ''4321''\<rparr>
      else if token = ''tok-reset-ghost'' then
        Some \<lparr>payload_type = ''reset'', payload_id = ''ghost'', payload_pin = ''4321''\<rparr>
      else None)"

definition sampleGuard :: collaborators where
  "sampleGuard =
     \<lparr>secondarySecret = ''s2'',
      isBearerToken = (\<lambda>token. True),
      isSignatureValid = (\<lambda>token key. key = ''s2''),
      payload = samplePayload,
      validatePin = (\<lambda>pin plainPin. pin = plainPin)\<rparr>"

definition requestWith :: "(string \<rightharpoonup> string) \<Rightarrow> Request" where
  "requestWith hs = \<lparr>headers = Some hs, processedDynamicPayloadDTO = None\<rparr>"

definition resetPolicy :: "RequiredPin \<Rightarrow> policy" where
  "resetPolicy required = \<lparr>step = ''reset'', requiredPin = required\<rparr>"

section \<open>Properties of OtpService\<close>

lemma sampleRepo_u1: "findOne sampleRepo ''u1'' = Some alice"
  by (simp add: sampleRepo_def findOne_def)

lemma sampleRepo_u2: "findOne sampleRepo ''u2'' = Some bob"
  by (simp add: sampleRepo_def findOne_def)

lemma sampleRepo_ghost: "findOne sampleRepo ''ghost'' = None"
  by (simp add: sampleRepo_def findOne_def)

text \<open>
  C5. On a login whose \<^verbatim>\<open>otpToken\<close> is already set, \<^verbatim>\<open>createOTP\<close> resolves to
  \<^verbatim>\<open>[null, LOGIN_ALREADY_HAS_OTP]\<close> and the repository is the one it was called on:
  nothing is saved, the stored secret is not overwritten.
\<close>

theorem createOTP_already_has_otp:
  assumes "findOne repo loginId = Some login" and "otpToken login = Some existing"
  shows "createOTP lib repo loginId = (Inr (None, Some LOGIN_ALREADY_HAS_OTP), repo)"
  using assms by (simp add: createOTP_def)

theorem createOTP_already_has_otp_witness:
  "findOne sampleRepo ''u1'' = Some alice \<and> otpToken alice = Some ''OLDSECRET''
   \<and> createOTP sampleLib sampleRepo ''u1'' = (Inr (None, Some LOGIN_ALREADY_HAS_OTP), sampleRepo)
   \<and> map_option otpToken (snd (createOTP sampleLib sampleRepo ''u1'') ''u1'')
       = Some (Some ''OLDSECRET'')"
proof -
  have found: "findOne sampleRepo ''u1'' = Some alice" by (rule sampleRepo_u1)
  have has: "otpToken alice = Some ''OLDSECRET''" by (simp add: alice_def)
  have res: "createOTP sampleLib sampleRepo ''u1''
      = (Inr (None, Some LOGIN_ALREADY_HAS_OTP), sampleRepo)"
    by (rule createOTP_already_has_otp [OF found has])
  have kept: "map_option otpToken (sampleRepo ''u1'') = Some (Some ''OLDSECRET'')"
    using found has by (simp add: findOne_def)
  show ?thesis using found has res kept by simp
qed

text \<open>
  C1. \<^verbatim>\<open>validateOTP\<close> has no branch for a login whose \<^verbatim>\<open>otpToken\<close> is
  \<^verbatim>\<open>null\<close>: it hands the \<^verbatim>\<open>null\<close> to \<^verbatim>\<open>authenticator.check\<close>, and what the call
  gives is what the library does with a secret that is not a string. A fault raised there
  is the fault of \<^verbatim>\<open>validateOTP\<close>; nothing turns it into an invalid result.
\<close>

theorem validateOTP_null_secret_unguarded:
  assumes "findOne repo loginId = Some login" and "otpToken login = None"
  shows "fst (validateOTP lib repo loginId token)
           = (case check lib token None of
                Inl thrown \<Rightarrow> Inl thrown
              | Inr tokenIsValid \<Rightarrow> Inr (Some tokenIsValid, None))"
  using assms by (simp add: validateOTP_def split: sum.split)

text \<open>
  With a check that throws on a \<^verbatim>\<open>null\<close> secret, \<^verbatim>\<open>validateOTP\<close> on the login
  \<open>u2\<close>, which has no secret, rejects with that TypeError.
\<close>

theorem validateOTP_null_secret_unguarded_witness:
  "findOne sampleRepo ''u2'' = Some bob \<and> otpToken bob = None
   \<and> fst (validateOTP sampleLib sampleRepo ''u2'' ''123456'')
       = Inl (TypeError ''The first argument must be of type string'')"
proof -
  have found: "findOne sampleRepo ''u2'' = Some bob" by (rule sampleRepo_u2)
  have unset: "otpToken bob = None" by (simp add: bob_def)
  have "fst (validateOTP sampleLib sampleRepo ''u2'' ''123456'')
          = (case check sampleLib ''123456'' None of
               Inl thrown \<Rightarrow> Inl thrown
             | Inr tokenIsValid \<Rightarrow> Inr (Some tokenIsValid, None))"
    by (rule validateOTP_null_secret_unguarded [OF found unset])
  then show ?thesis using found unset by (simp add: sampleLib_def sampleCheck_def)
qed

text \<open>
  C2. For a login id that is not in the repository, \<^verbatim>\<open>validateOTP\<close> and
  \<^verbatim>\<open>removeOTP\<close> do not resolve to \<^verbatim>\<open>[null, LOGIN_NOT_FOUND]\<close>: the tuple is built and
  dropped, and both reject with the TypeError of reading \<^verbatim>\<open>otpToken\<close> on \<^verbatim>\<open>null\<close>.
  The repository is left as it was.
\<close>

theorem missing_login_faults:
  assumes "findOne repo loginId = None"
  shows "validateOTP lib repo loginId token = (Inl nullLoginRead, repo)
         \<and> removeOTP lib repo loginId token = (Inl nullLoginRead, repo)"
  using assms by (simp add: validateOTP_def removeOTP_def)

theorem missing_login_faults_witness:
  "findOne sampleRepo ''ghost'' = None
   \<and> validateOTP sampleLib sampleRepo ''ghost'' ''123456'' = (Inl nullLoginRead, sampleRepo)
   \<and> removeOTP sampleLib sampleRepo ''ghost'' ''123456'' = (Inl nullLoginRead, sampleRepo)
   \<and> fst (validateOTP sampleLib sampleRepo ''ghost'' ''123456'') \<noteq> Inr (None, Some LOGIN_NOT_FOUND)
   \<and> fst (removeOTP sampleLib sampleRepo ''ghost'' ''123456'') \<noteq> Inr (None, Some LOGIN_NOT_FOUND)"
  using missing_login_faults [OF sampleRepo_ghost, of sampleLib "''123456''"] sampleRepo_ghost
  by simp

text \<open>
  C3. For an existing login and a code the authenticator accepts, \<^verbatim>\<open>removeOTP\<close>
  resolves to \<^verbatim>\<open>[true, null]\<close>, and the repository is the one it was called on: the
  login found afterwards is the same record, with the same \<^verbatim>\<open>otpToken\<close>. The secret is
  not cleared.
\<close>

theorem removeOTP_keeps_secret:
  assumes "findOne repo loginId = Some login"
    and "check lib token (otpToken login) = Inr True"
  shows "removeOTP lib repo loginId token = (Inr (Some True, None), repo)
         \<and> findOne (snd (removeOTP lib repo loginId token)) loginId = Some login"
  using assms by (simp add: removeOTP_def)

theorem removeOTP_keeps_secret_witness:
  "findOne sampleRepo ''u1'' = Some alice
   \<and> check sampleLib ''OLDSECRET'' (otpToken alice) = Inr True
   \<and> removeOTP sampleLib sampleRepo ''u1'' ''OLDSECRET'' = (Inr (Some True, None), sampleRepo)
   \<and> map_option otpToken (findOne (snd (removeOTP sampleLib sampleRepo ''u1'' ''OLDSECRET'')) ''u1'')
       = Some (Some ''OLDSECRET'')"
proof -
  have found: "findOne sampleRepo ''u1'' = Some alice" by (rule sampleRepo_u1)
  have valid: "check sampleLib ''OLDSECRET'' (otpToken alice) = Inr True"
    by (simp add: sampleLib_def sampleCheck_def alice_def)
  show ?thesis
    using removeOTP_keeps_secret [OF found valid] found valid by (simp add: alice_def)
qed

text \<open>
  C6. For an existing login and a proof code that the authenticator does not accept
  against the stored \<^verbatim>\<open>otpToken\<close>, \<^verbatim>\<open>updateOTP\<close> and \<^verbatim>\<open>removeOTP\<close> leave
  the repository as it was: no secret is generated, nothing is saved. What they give
  depends on the check. When it returns \<^verbatim>\<open>false\<close> both resolve to
  \<^verbatim>\<open>[null, TOKEN_OTP_INVALID]\<close>. When it throws, as it may on the \<^verbatim>\<open>null\<close> secret
  of a login that has none (neither operation tests \<^verbatim>\<open>login.otpToken\<close> before the
  call), both reject with that fault and return no error.
\<close>

theorem unaccepted_proof_outcomes:
  assumes "findOne repo loginId = Some login"
  shows "(check lib token (otpToken login) = Inr False \<longrightarrow>
            updateOTP lib repo loginId token = (Inr (None, Some TOKEN_OTP_INVALID), repo)
            \<and> removeOTP lib repo loginId token = (Inr (None, Some TOKEN_OTP_INVALID), repo))
         \<and> (\<forall>thrown. check lib token (otpToken login) = Inl thrown \<longrightarrow>
              updateOTP lib repo loginId token = (Inl thrown, repo)
              \<and> removeOTP lib repo loginId token = (Inl thrown, repo))
         \<and> (check lib token (otpToken login) \<noteq> Inr True \<longrightarrow>
              snd (updateOTP lib repo loginId token) = repo
              \<and> snd (removeOTP lib repo loginId token) = repo)"
proof (cases "check lib token (otpToken login)")
  case (Inl thrown)
  with assms show ?thesis by (simp add: updateOTP_def removeOTP_def)
next
  case (Inr tokenIsValid)
  with assms show ?thesis by (simp add: updateOTP_def removeOTP_def)
qed

text \<open>
  The login \<open>u2\<close> has no secret and the check throws on it: both operations reject
  with the TypeError. The login \<open>u1\<close> has one and the code is wrong: both return
  \<^verbatim>\<open>TOKEN_OTP_INVALID\<close>. The repository is unchanged in all four calls.
\<close>

theorem unaccepted_proof_outcomes_witness:
  "findOne sampleRepo ''u2'' = Some bob \<and> otpToken bob = None
   \<and> updateOTP sampleLib sampleRepo ''u2'' ''123456''
       = (Inl (TypeError ''The first argument must be of type string''), sampleRepo)
   \<and> removeOTP sampleLib sampleRepo ''u2'' ''123456''
       = (Inl (TypeError ''The first argument must be of type string''), sampleRepo)
   \<and> findOne sampleRepo ''u1'' = Some alice
   \<and> updateOTP sampleLib sampleRepo ''u1'' ''000000''
       = (Inr (None, Some TOKEN_OTP_INVALID), sampleRepo)
   \<and> removeOTP sampleLib sampleRepo ''u1'' ''000000''
       = (Inr (None, Some TOKEN_OTP_INVALID), sampleRepo)"
proof -
  have found2: "findOne sampleRepo ''u2'' = Some bob" by (rule sampleRepo_u2)
  have unset: "otpToken bob = None" by (simp add: bob_def)
  have throws: "check sampleLib ''123456'' (otpToken bob)
      = Inl (TypeError ''The first argument must be of type string'')"
    by (simp add: sampleLib_def sampleCheck_def bob_def)
  have found1: "findOne sampleRepo ''u1'' = Some alice" by (rule sampleRepo_u1)
  have invalid: "check sampleLib ''000000'' (otpToken alice) = Inr False"
    by (simp add: sampleLib_def sampleCheck_def alice_def)
  from unaccepted_proof_outcomes [OF found2, of sampleLib "''123456''"] throws
  have faults: "updateOTP sampleLib sampleRepo ''u2'' ''123456''
        = (Inl (TypeError ''The first argument must be of type string''), sampleRepo)
      \<and> removeOTP sampleLib sampleRepo ''u2'' ''123456''
        = (Inl (TypeError ''The first argument must be of type string''), sampleRepo)"
    by blast
  from unaccepted_proof_outcomes [OF found1, of sampleLib "''000000''"] invalid
  have errors: "updateOTP sampleLib sampleRepo ''u1'' ''000000''
        = (Inr (None, Some TOKEN_OTP_INVALID), sampleRepo)
      \<and> removeOTP sampleLib sampleRepo ''u1'' ''000000''
        = (Inr (None, Some TOKEN_OTP_INVALID), sampleRepo)"
    by blast
  from found2 unset faults found1 errors show ?thesis by (intro conjI) simp_all
qed

section \<open>Properties of the guard\<close>

subsection \<open>How the outcome follows the \<^verbatim>\<open>try\<close> block\<close>

lemma rejected_notAuthorized: "rejected (Inl (notAuthorized thrown))"
  by (simp add: rejected_def notAuthorized_def UNAUTHORIZED_def)

lemma not_rejected_Inr: "\<not> rejected (Inr b)"
  by (simp add: rejected_def)

lemma canActivate_passed:
  assumes "headers request = Some hs"
    and "hs ''x-temporary-authorization'' = Some token" and "token \<noteq> []"
    and "isBearerToken g token" and "isSignatureValid g token (secondarySecret g)"
    and "payload g token = Some dto" and "payload_type dto = step p"
  shows "canActivate g lib repo (Some p) request =
           (case switchRequiredPin g lib repo (requiredPin p) dto
                   (hs ''x-email-pin'') (hs ''x-otp-pin'') of
              (Inl thrown, cs) \<Rightarrow>
                (Inl (notAuthorized thrown), request\<lparr>processedDynamicPayloadDTO := Some dto\<rparr>, cs)
            | (Inr ok, cs) \<Rightarrow>
                (Inr ok, request\<lparr>processedDynamicPayloadDTO := Some dto\<rparr>, cs))"
  using assms
  by (simp add: canActivate_def tryBlock_def split: prod.split sum.split)

lemma ifGiven_falsy: "\<not> truthy h \<Longrightarrow> ifGiven h f = (Inr True, [])"
  by (simp add: ifGiven_def truthy_def split: option.splits)

lemma switchRequiredPin_result:
  "fst (switchRequiredPin g lib repo required dto pin otp) = Inr True
   \<or> (\<exists>thrown. fst (switchRequiredPin g lib repo required dto pin otp) = Inl thrown)"
  by (cases required) (simp_all add: switchRequiredPin_def split: prod.split sum.split)

lemma tryBlock_cases:
  "(\<exists>thrown. fst (tryBlock g lib repo p request) = Inl thrown)
   \<or> (\<exists>dto pin otp. fst (tryBlock g lib repo p request)
         = fst (switchRequiredPin g lib repo (requiredPin p) dto pin otp))"
  by (auto simp add: tryBlock_def Let_def case_prod_beta split: option.split)

lemma tryBlock_result:
  "fst (tryBlock g lib repo p request) = Inr True
   \<or> (\<exists>thrown. fst (tryBlock g lib repo p request) = Inl thrown)"
  using tryBlock_cases [of g lib repo p request] switchRequiredPin_result [of g lib repo "requiredPin p"]
  by metis

lemma canActivate_outcome:
  "outcome (canActivate g lib repo (Some p) request)
     = (case fst (tryBlock g lib repo p request) of
          Inl thrown \<Rightarrow> Inl (notAuthorized thrown)
        | Inr ok \<Rightarrow> Inr ok)"
  by (simp add: canActivate_def outcome_def split: prod.split sum.split)

lemma validateOtpToken_fst:
  "fst (validateOtpToken lib repo loginId otp)
     = (case fst (validateOTP lib repo loginId otp) of
          Inl thrown \<Rightarrow> Inl thrown
        | Inr (tokenIsValid, _) \<Rightarrow>
            if tokenIsValid = Some True then Inr True else Inl (Error ''Invalid otp pin''))"
  by (simp add: validateOtpToken_def split: sum.split prod.split)

lemma rejected_iff_thrown:
  "rejected (outcome (canActivate g lib repo (Some p) request))
     = (\<exists>thrown. fst (tryBlock g lib repo p request) = Inl thrown)"
  by (auto simp add: canActivate_outcome rejected_notAuthorized not_rejected_Inr
      split: sum.splits)

lemma allowed_iff_returned:
  "allowed (outcome (canActivate g lib repo (Some p) request))
     = (fst (tryBlock g lib repo p request) = Inr True)"
  by (auto simp add: canActivate_outcome allowed_def split: sum.splits)

lemma tryBlock_reaches_switch:
  assumes "headers request = Some hs"
    and "hs ''x-temporary-authorization'' = Some token"
    and "payload g token = Some dto"
  shows "(\<exists>thrown. fst (tryBlock g lib repo p request) = Inl thrown)
         \<or> fst (tryBlock g lib repo p request)
             = fst (switchRequiredPin g lib repo (requiredPin p) dto
                     (hs ''x-email-pin'') (hs ''x-otp-pin''))"
  using assms by (auto simp add: tryBlock_def Let_def case_prod_beta)

lemma tryBlock_token_failure:
  assumes "headers request = Some hs"
    and "hs ''x-temporary-authorization'' = Some token"
    and "\<not> isBearerToken g token \<or> \<not> isSignatureValid g token (secondarySecret g)
         \<or> map_option payload_type (payload g token) \<noteq> Some (step p)"
  shows "\<exists>thrown. fst (tryBlock g lib repo p request) = Inl thrown"
  using assms by (auto simp add: tryBlock_def split: option.splits)

lemma tryBlock_no_token:
  assumes "headers request = Some hs" and "\<not> truthy (hs ''x-temporary-authorization'')"
  shows "\<exists>thrown. fst (tryBlock g lib repo p request) = Inl thrown"
  using assms by (auto simp add: tryBlock_def truthy_def split: option.splits)

lemma tryBlock_switch_throws:
  assumes "headers request = Some hs"
    and "\<And>dto. \<exists>thrown. fst (switchRequiredPin g lib repo (requiredPin p) dto
                     (hs ''x-email-pin'') (hs ''x-otp-pin'')) = Inl thrown"
  shows "\<exists>thrown. fst (tryBlock g lib repo p request) = Inl thrown"
proof (cases "hs ''x-temporary-authorization''")
  case None
  with assms(1) show ?thesis by (simp add: tryBlock_def)
next
  case (Some token)
  show ?thesis
  proof (cases "payload g token")
    case None
    with assms(1) Some show ?thesis by (simp add: tryBlock_def)
  next
    case (Some dto)
    from tryBlock_reaches_switch [OF assms(1) \<open>hs ''x-temporary-authorization'' = Some token\<close> Some]
      assms(2) [of dto]
    show ?thesis by metis
  qed
qed

lemma switch_missing_pin:
  assumes "(required = ONLY_EMAIL \<and> \<not> truthy pin) \<or> (required = ONLY_OTP \<and> \<not> truthy otp)
           \<or> (required = ANY \<and> \<not> truthy pin \<and> \<not> truthy otp)"
  shows "\<exists>thrown. fst (switchRequiredPin g lib repo required dto pin otp) = Inl thrown"
  using assms by (auto simp add: switchRequiredPin_def)

lemma switch_invalid_email_pin:
  assumes "required = ONLY_EMAIL \<or> required = ANY"
    and "pin = Some pv" and "pv \<noteq> []" and "\<not> validatePin g (payload_pin dto) pv"
  shows "\<exists>thrown. fst (switchRequiredPin g lib repo required dto pin otp) = Inl thrown"
  using assms
  by (auto simp add: switchRequiredPin_def ifGiven_def truthy_def validateEmailToken_def)

lemma switch_invalid_otp:
  assumes "required = ONLY_OTP \<or> required = ANY"
    and "otp = Some ov" and "ov \<noteq> []"
    and "fst (validateOTP lib repo (payload_id dto) ov) \<noteq> Inr (Some True, None)"
  shows "\<exists>thrown. fst (switchRequiredPin g lib repo required dto pin otp) = Inl thrown"
proof -
  have valid_none: "fst (validateOTP lib repo loginId ov) = Inr (v, e) \<Longrightarrow> e = None" for loginId v e
    by (auto simp add: validateOTP_def findOne_def split: option.splits sum.splits)
  have otp_throws: "\<exists>thrown. fst (validateOtpToken lib repo (payload_id dto) ov) = Inl thrown"
    using assms(4) valid_none [of "payload_id dto"]
    by (cases "fst (validateOTP lib repo (payload_id dto) ov)")
      (auto simp add: validateOtpToken_fst)
  have given: "ifGiven otp f = f ov" for f
    using assms(2,3) by (simp add: ifGiven_def)
  have t: "truthy otp" using assms(2,3) by (simp add: truthy_def)
  from assms(1) show ?thesis
  proof
    assume "required = ONLY_OTP"
    with otp_throws t show ?thesis
      by (auto simp add: switchRequiredPin_def given case_prod_beta split: sum.splits)
  next
    assume "required = ANY"
    with otp_throws t show ?thesis
      by (auto simp add: switchRequiredPin_def given case_prod_beta split: sum.splits)
  qed
qed

lemma validateOTP_second_None:
  "fst (validateOTP lib repo loginId token) = Inr (v, e) \<Longrightarrow> e = None"
  by (auto simp add: validateOTP_def split: option.splits sum.splits)

lemma validateOtpToken_accepts_iff:
  "(fst (validateOtpToken lib repo loginId otp) = Inr True)
     = (fst (validateOTP lib repo loginId otp) = Inr (Some True, None))"
proof (cases "fst (validateOTP lib repo loginId otp)")
  case (Inl thrown)
  then show ?thesis by (simp add: validateOtpToken_fst)
next
  case (Inr res)
  obtain v e where res: "res = (v, e)" by (cases res)
  with Inr validateOTP_second_None [of lib repo loginId otp v e] have "e = None" by simp
  with Inr res show ?thesis by (simp add: validateOtpToken_fst)
qed

lemma validateEmailToken_accepts_iff:
  "(fst (validateEmailToken g pin plainPin) = Inr True) = validatePin g pin plainPin"
  by (simp add: validateEmailToken_def)

lemma validate_results:
  "fst (validateEmailToken g pin plainPin) = Inr True
     \<or> (\<exists>thrown. fst (validateEmailToken g pin plainPin) = Inl thrown)"
  "fst (validateOtpToken lib repo loginId otp) = Inr True
     \<or> (\<exists>thrown. fst (validateOtpToken lib repo loginId otp) = Inl thrown)"
  by (auto simp add: validateEmailToken_def validateOtpToken_def split: sum.splits)

lemma ifGiven_accepts_iff:
  "(fst (ifGiven h f) = Inr True) = (\<forall>v. h = Some v \<and> v \<noteq> [] \<longrightarrow> fst (f v) = Inr True)"
  by (cases h) (simp_all add: ifGiven_def)

lemma truthy_iff: "truthy h = (\<exists>v. h = Some v \<and> v \<noteq> [])"
  by (cases h) (simp_all add: truthy_def)

lemma switchRequiredPin_fst:
  "fst (switchRequiredPin g lib repo required dto pin otp) =
     (case required of
        ONLY_EMAIL \<Rightarrow>
          if \<not> truthy pin then Inl (Error ''No email pin given'')
          else (case fst (ifGiven pin (validateEmailToken g (payload_pin dto))) of
                  Inl thrown \<Rightarrow> Inl thrown | Inr _ \<Rightarrow> Inr True)
      | ONLY_OTP \<Rightarrow>
          if \<not> truthy otp then Inl (Error ''No otp pin given'')
          else (case fst (ifGiven otp (validateOtpToken lib repo (payload_id dto))) of
                  Inl thrown \<Rightarrow> Inl thrown | Inr _ \<Rightarrow> Inr True)
      | ANY \<Rightarrow>
          if \<not> truthy pin \<and> \<not> truthy otp then Inl (Error ''No pin specified'')
          else (case fst (ifGiven pin (validateEmailToken g (payload_pin dto))) of
                  Inl thrown \<Rightarrow> Inl thrown
                | Inr _ \<Rightarrow>
                    (case fst (ifGiven otp (validateOtpToken lib repo (payload_id dto))) of
                       Inl thrown \<Rightarrow> Inl thrown | Inr _ \<Rightarrow> Inr True))
      | OTHER _ \<Rightarrow> Inr True)"
  by (cases required) (auto simp add: switchRequiredPin_def split: prod.splits sum.splits)

lemma ifGiven_email_result:
  "fst (ifGiven pin (validateEmailToken g p)) = Inr True
     \<or> (\<exists>thrown. fst (ifGiven pin (validateEmailToken g p)) = Inl thrown)"
  by (cases pin) (auto simp add: ifGiven_def validateEmailToken_def)

lemma ifGiven_otp_result:
  "fst (ifGiven otp (validateOtpToken lib repo i)) = Inr True
     \<or> (\<exists>thrown. fst (ifGiven otp (validateOtpToken lib repo i)) = Inl thrown)"
  using validate_results(2) [of lib repo i]
  by (cases otp) (auto simp add: ifGiven_def)

lemma switchRequiredPin_allows_iff:
  "(fst (switchRequiredPin g lib repo required dto pin otp) = Inr True) =
     (case required of
        ONLY_EMAIL \<Rightarrow>
          (\<exists>pv. pin = Some pv \<and> pv \<noteq> [] \<and> validatePin g (payload_pin dto) pv)
      | ONLY_OTP \<Rightarrow>
          (\<exists>ov. otp = Some ov \<and> ov \<noteq> []
             \<and> fst (validateOTP lib repo (payload_id dto) ov) = Inr (Some True, None))
      | ANY \<Rightarrow>
          (truthy pin \<or> truthy otp)
          \<and> (\<forall>pv. pin = Some pv \<and> pv \<noteq> [] \<longrightarrow> validatePin g (payload_pin dto) pv)
          \<and> (\<forall>ov. otp = Some ov \<and> ov \<noteq> []
                \<longrightarrow> fst (validateOTP lib repo (payload_id dto) ov) = Inr (Some True, None))
      | OTHER v \<Rightarrow> True)"
proof -
  have email: "(fst (ifGiven pin (validateEmailToken g (payload_pin dto))) = Inr True)
      = (\<forall>pv. pin = Some pv \<and> pv \<noteq> [] \<longrightarrow> validatePin g (payload_pin dto) pv)"
    by (simp add: ifGiven_accepts_iff validateEmailToken_accepts_iff)
  have code: "(fst (ifGiven otp (validateOtpToken lib repo (payload_id dto))) = Inr True)
      = (\<forall>ov. otp = Some ov \<and> ov \<noteq> []
           \<longrightarrow> fst (validateOTP lib repo (payload_id dto) ov) = Inr (Some True, None))"
    by (simp add: ifGiven_accepts_iff validateOtpToken_accepts_iff)
  have e_split: "(case fst (ifGiven pin (validateEmailToken g (payload_pin dto))) of
        Inl thrown \<Rightarrow> Inl thrown | Inr _ \<Rightarrow> X) = Inr True
      \<longleftrightarrow> fst (ifGiven pin (validateEmailToken g (payload_pin dto))) = Inr True \<and> X = Inr True"
    for X :: "bool promise"
    using ifGiven_email_result [of pin g "payload_pin dto"] by (auto split: sum.splits)
  have o_split: "(case fst (ifGiven otp (validateOtpToken lib repo (payload_id dto))) of
        Inl thrown \<Rightarrow> Inl thrown | Inr _ \<Rightarrow> X) = Inr True
      \<longleftrightarrow> fst (ifGiven otp (validateOtpToken lib repo (payload_id dto))) = Inr True \<and> X = Inr True"
    for X :: "bool promise"
    using ifGiven_otp_result [of otp lib repo "payload_id dto"] by (auto split: sum.splits)
  show ?thesis
  proof (cases required)
    case ANY
    then show ?thesis
      by (simp add: switchRequiredPin_fst e_split o_split email code)
  next
    case ONLY_EMAIL
    then show ?thesis
      by (auto simp add: switchRequiredPin_fst e_split email truthy_iff)
  next
    case ONLY_OTP
    then show ?thesis
      by (auto simp add: switchRequiredPin_fst o_split code truthy_iff)
  next
    case (OTHER v)
    then show ?thesis by (simp add: switchRequiredPin_fst)
  qed
qed

lemma tryBlock_allows_iff:
  "(fst (tryBlock g lib repo p request) = Inr True) =
     (\<exists>hs token dto. headers request = Some hs
        \<and> hs ''x-temporary-authorization'' = Some token \<and> token \<noteq> []
        \<and> isBearerToken g token \<and> isSignatureValid g token (secondarySecret g)
        \<and> payload g token = Some dto \<and> payload_type dto = step p
        \<and> fst (switchRequiredPin g lib repo (requiredPin p) dto
                 (hs ''x-email-pin'') (hs ''x-otp-pin'')) = Inr True)"
  by (auto simp add: tryBlock_def Let_def case_prod_beta split: option.splits)

lemma allowed_not_rejected:
  "rejected (outcome (canActivate g lib repo (Some p) request))
     = (\<not> allowed (outcome (canActivate g lib repo (Some p) request)))"
  using tryBlock_result [of g lib repo p request]
  by (auto simp add: rejected_iff_thrown allowed_iff_returned)

lemma canActivate_allows_iff:
  "allowed (outcome (canActivate g lib repo (Some p) request)) =
     (\<exists>hs token dto. headers request = Some hs
        \<and> hs ''x-temporary-authorization'' = Some token \<and> token \<noteq> []
        \<and> isBearerToken g token \<and> isSignatureValid g token (secondarySecret g)
        \<and> payload g token = Some dto \<and> payload_type dto = step p
        \<and> (case requiredPin p of
              ONLY_EMAIL \<Rightarrow>
                (\<exists>pin. hs ''x-email-pin'' = Some pin \<and> pin \<noteq> []
                   \<and> validatePin g (payload_pin dto) pin)
            | ONLY_OTP \<Rightarrow>
                (\<exists>otp. hs ''x-otp-pin'' = Some otp \<and> otp \<noteq> []
                   \<and> fst (validateOTP lib repo (payload_id dto) otp) = Inr (Some True, None))
            | ANY \<Rightarrow>
                (truthy (hs ''x-email-pin'') \<or> truthy (hs ''x-otp-pin''))
                \<and> (\<forall>pin. hs ''x-email-pin'' = Some pin \<and> pin \<noteq> []
                      \<longrightarrow> validatePin g (payload_pin dto) pin)
                \<and> (\<forall>otp. hs ''x-otp-pin'' = Some otp \<and> otp \<noteq> []
                      \<longrightarrow> fst (validateOTP lib repo (payload_id dto) otp)
                            = Inr (Some True, None))
            | OTHER v \<Rightarrow> True))"
  unfolding allowed_iff_returned tryBlock_allows_iff switchRequiredPin_allows_iff ..

lemma sampleGuard_simps:
  "secondarySecret sampleGuard = ''s2''"
  "isBearerToken sampleGuard token = True"
  "isSignatureValid sampleGuard token key = (key = ''s2'')"
  "payload sampleGuard = samplePayload"
  "validatePin sampleGuard pin plainPin = (pin = plainPin)"
  by (simp_all add: sampleGuard_def)

subsection \<open>The step check\<close>

text \<open>
  C4. Under a declared policy, a request whose token decodes to a payload of another
  \<^verbatim>\<open>type\<close> than the policy's step (or to no payload) is rejected, whatever the
  signature check and the pin headers say; neither the pin validator nor the OTP service is
  called.
\<close>

theorem step_mismatch_rejected:
  assumes "headers request = Some hs"
    and "hs ''x-temporary-authorization'' = Some token"
    and "map_option payload_type (payload g token) \<noteq> Some (step p)"
  shows "rejected (outcome (canActivate g lib repo (Some p) request))
         \<and> callsMade (canActivate g lib repo (Some p) request) = []"
  using assms
  by (auto simp add: canActivate_def tryBlock_def outcome_def callsMade_def
      rejected_notAuthorized split: option.splits)

text \<open>
  A well-formed token with a valid signature, issued for the step \<open>login\<close>, sent with
  the right email pin to a handler that declares the step \<open>reset\<close>: rejected.
\<close>

theorem step_mismatch_rejected_witness:
  "isBearerToken sampleGuard ''tok-login-u1''
   \<and> isSignatureValid sampleGuard ''tok-login-u1'' (secondarySecret sampleGuard)
   \<and> map_option payload_pin (payload sampleGuard ''tok-login-u1'') = Some ''4321''
   \<and> map_option payload_type (payload sampleGuard ''tok-login-u1'') = Some ''login''
   \<and> rejected (outcome (canActivate sampleGuard sampleLib sampleRepo
         (Some (resetPolicy ONLY_EMAIL))
         (requestWith [''x-temporary-authorization'' \<mapsto> ''tok-login-u1'',
                       ''x-email-pin'' \<mapsto> ''4321''])))
   \<and> callsMade (canActivate sampleGuard sampleLib sampleRepo
         (Some (resetPolicy ONLY_EMAIL))
         (requestWith [''x-temporary-authorization'' \<mapsto> ''tok-login-u1'',
                       ''x-email-pin'' \<mapsto> ''4321''])) = []"
proof -
  let ?hs = "[''x-temporary-authorization'' \<mapsto> ''tok-login-u1'', ''x-email-pin'' \<mapsto> ''4321'']"
  have hdrs: "headers (requestWith ?hs) = Some ?hs" by (simp add: requestWith_def)
  have tok: "?hs ''x-temporary-authorization'' = Some ''tok-login-u1''" by simp
  have decoded: "map_option payload_type (payload sampleGuard ''tok-login-u1'') = Some ''login''"
    by (simp add: sampleGuard_simps samplePayload_def)
  have mismatch: "map_option payload_type (payload sampleGuard ''tok-login-u1'')
      \<noteq> Some (step (resetPolicy ONLY_EMAIL))"
    by (simp add: decoded resetPolicy_def)
  have pin: "map_option payload_pin (payload sampleGuard ''tok-login-u1'') = Some ''4321''"
    by (simp add: sampleGuard_simps samplePayload_def)
  from step_mismatch_rejected [OF hdrs tok mismatch, of sampleLib sampleRepo] decoded pin
  show ?thesis by (simp add: sampleGuard_simps)
qed

subsection \<open>The pin policy\<close>

text \<open>
  C7. Past the token and step checks, under \<^verbatim>\<open>RequiredPin.ANY\<close>, with a non-empty
  \<^verbatim>\<open>x-email-pin\<close> header and no (or an empty) \<^verbatim>\<open>x-otp-pin\<close> header, the guard
  allows the request exactly when \<^verbatim>\<open>validatePin\<close> accepts the header against the
  payload's pin and rejects it otherwise; the only call made is that one, so
  \<^verbatim>\<open>validateOTP\<close> is not invoked.
\<close>

theorem any_email_only:
  assumes "headers request = Some hs"
    and "hs ''x-temporary-authorization'' = Some token" and "token \<noteq> []"
    and "isBearerToken g token" and "isSignatureValid g token (secondarySecret g)"
    and "payload g token = Some dto" and "payload_type dto = step p"
    and "requiredPin p = ANY"
    and "hs ''x-email-pin'' = Some pin" and "pin \<noteq> []"
    and "\<not> truthy (hs ''x-otp-pin'')"
  shows "allowed (outcome (canActivate g lib repo (Some p) request))
           = validatePin g (payload_pin dto) pin
         \<and> rejected (outcome (canActivate g lib repo (Some p) request))
           = (\<not> validatePin g (payload_pin dto) pin)
         \<and> callsMade (canActivate g lib repo (Some p) request)
           = [ValidatePin (payload_pin dto) pin]"
proof -
  have sw: "switchRequiredPin g lib repo ANY dto (Some pin) (hs ''x-otp-pin'')
      = (if validatePin g (payload_pin dto) pin then Inr True
         else Inl (Error ''Invalid email pin''), [ValidatePin (payload_pin dto) pin])"
  proof -
    have otp_skipped: "ifGiven (hs ''x-otp-pin'') f = (Inr True, [])" for f
      using assms(11) by (rule ifGiven_falsy)
    have pin_checked: "ifGiven (Some pin) f = f pin" for f
      using assms(10) by (simp add: ifGiven_def)
    have "truthy (Some pin)"
      using assms(10) by (simp add: truthy_def)
    then show ?thesis
      by (simp add: switchRequiredPin_def otp_skipped pin_checked validateEmailToken_def)
  qed
  have "canActivate g lib repo (Some p) request =
      (if validatePin g (payload_pin dto) pin then Inr True
       else Inl (notAuthorized (Error ''Invalid email pin'')),
       request\<lparr>processedDynamicPayloadDTO := Some dto\<rparr>,
       [ValidatePin (payload_pin dto) pin])"
    using canActivate_passed [OF assms(1-7), of lib repo] assms(8,9) sw by simp
  then show ?thesis
    by (simp add: outcome_def callsMade_def allowed_def rejected_notAuthorized not_rejected_Inr)
qed

text \<open>
  The same token and policy with the right pin (allowed) and with a wrong pin
  (rejected).
\<close>

theorem any_email_only_witness:
  "allowed (outcome (canActivate sampleGuard sampleLib sampleRepo (Some (resetPolicy ANY))
       (requestWith [''x-temporary-authorization'' \<mapsto> ''tok-reset-u1'',
                     ''x-email-pin'' \<mapsto> ''4321''])))
   \<and> callsMade (canActivate sampleGuard sampleLib sampleRepo (Some (resetPolicy ANY))
       (requestWith [''x-temporary-authorization'' \<mapsto> ''tok-reset-u1'',
                     ''x-email-pin'' \<mapsto> ''4321''])) = [ValidatePin ''4321'' ''4321'']
   \<and> rejected (outcome (canActivate sampleGuard sampleLib sampleRepo (Some (resetPolicy ANY))
       (requestWith [''x-temporary-authorization'' \<mapsto> ''tok-reset-u1'',
                     ''x-email-pin'' \<mapsto> ''0000''])))
   \<and> callsMade (canActivate sampleGuard sampleLib sampleRepo (Some (resetPolicy ANY))
       (requestWith [''x-temporary-authorization'' \<mapsto> ''tok-reset-u1'',
                     ''x-email-pin'' \<mapsto> ''0000''])) = [ValidatePin ''4321'' ''0000'']"
proof -
  let ?dto = "\<lparr>payload_type = ''reset'', payload_id = ''u1'', payload_pin = ''4321''\<rparr>"
  have dto: "payload sampleGuard ''tok-reset-u1'' = Some ?dto"
    by (simp add: sampleGuard_simps samplePayload_def)
  have stp: "payload_type ?dto = step (resetPolicy ANY)" by (simp add: resetPolicy_def)
  have req: "requiredPin (resetPolicy ANY) = ANY" by (simp add: resetPolicy_def)
  have run: "allowed (outcome (canActivate sampleGuard sampleLib sampleRepo
        (Some (resetPolicy ANY))
        (requestWith [''x-temporary-authorization'' \<mapsto> ''tok-reset-u1'', ''x-email-pin'' \<mapsto> pin])))
      = (''4321'' = pin)
    \<and> rejected (outcome (canActivate sampleGuard sampleLib sampleRepo
        (Some (resetPolicy ANY))
        (requestWith [''x-temporary-authorization'' \<mapsto> ''tok-reset-u1'', ''x-email-pin'' \<mapsto> pin])))
      = (''4321'' \<noteq> pin)
    \<and> callsMade (canActivate sampleGuard sampleLib sampleRepo
        (Some (resetPolicy ANY))
        (requestWith [''x-temporary-authorization'' \<mapsto> ''tok-reset-u1'', ''x-email-pin'' \<mapsto> pin]))
      = [ValidatePin ''4321'' pin]" if "pin \<noteq> []" for pin
  proof -
    let ?hs = "[''x-temporary-authorization'' \<mapsto> ''tok-reset-u1'', ''x-email-pin'' \<mapsto> pin]"
    have hdrs: "headers (requestWith ?hs) = Some ?hs" by (simp add: requestWith_def)
    have tok: "?hs ''x-temporary-authorization'' = Some ''tok-reset-u1''" by simp
    have ne: "''tok-reset-u1'' \<noteq> []" by simp
    have wf: "isBearerToken sampleGuard ''tok-reset-u1''" by (simp add: sampleGuard_simps)
    have sg: "isSignatureValid sampleGuard ''tok-reset-u1'' (secondarySecret sampleGuard)"
      by (simp add: sampleGuard_simps)
    have em: "?hs ''x-email-pin'' = Some pin" by simp
    have no_otp: "\<not> truthy (?hs ''x-otp-pin'')" by (simp add: truthy_def)
    from any_email_only [OF hdrs tok ne wf sg dto stp req em that no_otp, of sampleLib sampleRepo]
    show ?thesis by (simp add: sampleGuard_simps)
  qed
  from run [of "''4321''"] run [of "''0000''"] show ?thesis by simp
qed

text \<open>
  C8. Under \<^verbatim>\<open>RequiredPin.ONLY_OTP\<close>, a request without an \<^verbatim>\<open>x-otp-pin\<close> header
  (or with an empty one) is rejected, whatever its \<^verbatim>\<open>x-email-pin\<close> header holds; no
  pin is validated.
\<close>

theorem only_otp_missing_otp_rejected:
  assumes "requiredPin p = ONLY_OTP"
    and "headers request = Some hs"
    and "\<not> truthy (hs ''x-otp-pin'')"
  shows "rejected (outcome (canActivate g lib repo (Some p) request))
         \<and> callsMade (canActivate g lib repo (Some p) request) = []"
  using assms
  by (auto simp add: canActivate_def tryBlock_def outcome_def callsMade_def
      switchRequiredPin_def rejected_notAuthorized split: option.splits)

text \<open>
  A valid token for the declared step with the right email pin and no OTP header:
  rejected.
\<close>

theorem only_otp_missing_otp_rejected_witness:
  "validatePin sampleGuard ''4321'' ''4321''
   \<and> rejected (outcome (canActivate sampleGuard sampleLib sampleRepo
         (Some (resetPolicy ONLY_OTP))
         (requestWith [''x-temporary-authorization'' \<mapsto> ''tok-reset-u1'',
                       ''x-email-pin'' \<mapsto> ''4321''])))
   \<and> callsMade (canActivate sampleGuard sampleLib sampleRepo
         (Some (resetPolicy ONLY_OTP))
         (requestWith [''x-temporary-authorization'' \<mapsto> ''tok-reset-u1'',
                       ''x-email-pin'' \<mapsto> ''4321''])) = []"
proof -
  let ?hs = "[''x-temporary-authorization'' \<mapsto> ''tok-reset-u1'', ''x-email-pin'' \<mapsto> ''4321'']"
  have req: "requiredPin (resetPolicy ONLY_OTP) = ONLY_OTP" by (simp add: resetPolicy_def)
  have hdrs: "headers (requestWith ?hs) = Some ?hs" by (simp add: requestWith_def)
  have no_otp: "\<not> truthy (?hs ''x-otp-pin'')" by (simp add: truthy_def)
  from only_otp_missing_otp_rejected [OF req hdrs no_otp, of sampleGuard sampleLib sampleRepo]
  show ?thesis by (simp add: sampleGuard_simps)
qed

text \<open>
  C10. Past the token and step checks, under a policy whose \<^verbatim>\<open>requiredPin\<close> is none
  of \<^verbatim>\<open>ONLY_EMAIL\<close>, \<^verbatim>\<open>ONLY_OTP\<close> and \<^verbatim>\<open>ANY\<close>, the guard returns
  \<^verbatim>\<open>true\<close> whatever the pin headers hold, and calls neither the pin validator nor the
  OTP service.
\<close>

theorem other_requiredPin_allows:
  assumes "headers request = Some hs"
    and "hs ''x-temporary-authorization'' = Some token" and "token \<noteq> []"
    and "isBearerToken g token" and "isSignatureValid g token (secondarySecret g)"
    and "payload g token = Some dto" and "payload_type dto = step p"
    and "requiredPin p \<noteq> ONLY_EMAIL" and "requiredPin p \<noteq> ONLY_OTP"
    and "requiredPin p \<noteq> ANY"
  shows "outcome (canActivate g lib repo (Some p) request) = Inr True
         \<and> callsMade (canActivate g lib repo (Some p) request) = []"
proof -
  obtain v where "requiredPin p = OTHER v"
    using assms(8-10) by (cases "requiredPin p") simp_all
  then have "switchRequiredPin g lib repo (requiredPin p) dto
      (hs ''x-email-pin'') (hs ''x-otp-pin'') = (Inr True, [])"
    by (simp add: switchRequiredPin_def)
  with canActivate_passed [OF assms(1-7), of lib repo] show ?thesis
    by (simp add: outcome_def callsMade_def)
qed

theorem other_requiredPin_allows_witness:
  "outcome (canActivate sampleGuard sampleLib sampleRepo (Some (resetPolicy (OTHER ''NONE'')))
       (requestWith [''x-temporary-authorization'' \<mapsto> ''tok-reset-u1''])) = Inr True
   \<and> callsMade (canActivate sampleGuard sampleLib sampleRepo
       (Some (resetPolicy (OTHER ''NONE'')))
       (requestWith [''x-temporary-authorization'' \<mapsto> ''tok-reset-u1''])) = []"
proof -
  let ?hs = "[''x-temporary-authorization'' \<mapsto> ''tok-reset-u1'']"
  let ?dto = "\<lparr>payload_type = ''reset'', payload_id = ''u1'', payload_pin = ''4321''\<rparr>"
  let ?p = "resetPolicy (OTHER ''NONE'')"
  have hdrs: "headers (requestWith ?hs) = Some ?hs" by (simp add: requestWith_def)
  have tok: "?hs ''x-temporary-authorization'' = Some ''tok-reset-u1''" by simp
  have ne: "''tok-reset-u1'' \<noteq> []" by simp
  have wf: "isBearerToken sampleGuard ''tok-reset-u1''" by (simp add: sampleGuard_simps)
  have sg: "isSignatureValid sampleGuard ''tok-reset-u1'' (secondarySecret sampleGuard)"
    by (simp add: sampleGuard_simps)
  have dto: "payload sampleGuard ''tok-reset-u1'' = Some ?dto"
    by (simp add: sampleGuard_simps samplePayload_def)
  have stp: "payload_type ?dto = step ?p" by (simp add: resetPolicy_def)
  have r1: "requiredPin ?p \<noteq> ONLY_EMAIL" and r2: "requiredPin ?p \<noteq> ONLY_OTP"
    and r3: "requiredPin ?p \<noteq> ANY"
    by (simp_all add: resetPolicy_def)
  show ?thesis
    by (rule other_requiredPin_allows [OF hdrs tok ne wf sg dto stp r1 r2 r3])
qed

subsection \<open>One outcome for every failure\<close>

text \<open>
  C9. Under a declared policy the guard either returns \<^verbatim>\<open>true\<close> or throws the
  HttpException with the fixed response and status 401, never both and nothing else. It
  returns \<^verbatim>\<open>true\<close> exactly on the success paths: a non-empty token header, a well-formed
  token with a valid signature whose payload type is the declared step, and the pin policy
  met (under \<^verbatim>\<open>ONLY_EMAIL\<close> a non-empty email pin that \<^verbatim>\<open>validatePin\<close> accepts;
  under \<^verbatim>\<open>ONLY_OTP\<close> a non-empty OTP for which \<^verbatim>\<open>validateOTP\<close> resolves to
  \<^verbatim>\<open>[true, null]\<close>; under \<^verbatim>\<open>ANY\<close> at least one of the two, and each one given
  accepted; nothing under any other value). Every
  failure is the rejection: no headers; no (or an empty) token header; a token that is not
  well formed, whose signature is invalid or whose payload type is not the declared step;
  a missing pin header that the policy requires; an email pin that \<^verbatim>\<open>validatePin\<close>
  refuses; an OTP for which \<^verbatim>\<open>validateOTP\<close> does not resolve to \<^verbatim>\<open>[true, null]\<close>,
  which covers an invalid code, a fault of the check and a login that is not found.
\<close>

theorem canActivate_uniform_outcome:
  "let r = outcome (canActivate g lib repo (Some p) request) in
     (allowed r \<or> rejected r)
     \<and> rejected r = (\<not> allowed r)
     \<and> allowed r =
         (\<exists>hs token dto. headers request = Some hs
            \<and> hs ''x-temporary-authorization'' = Some token \<and> token \<noteq> []
            \<and> isBearerToken g token \<and> isSignatureValid g token (secondarySecret g)
            \<and> payload g token = Some dto \<and> payload_type dto = step p
            \<and> (case requiredPin p of
                  ONLY_EMAIL \<Rightarrow>
                    (\<exists>pin. hs ''x-email-pin'' = Some pin \<and> pin \<noteq> []
                       \<and> validatePin g (payload_pin dto) pin)
                | ONLY_OTP \<Rightarrow>
                    (\<exists>otp. hs ''x-otp-pin'' = Some otp \<and> otp \<noteq> []
                       \<and> fst (validateOTP lib repo (payload_id dto) otp)
                           = Inr (Some True, None))
                | ANY \<Rightarrow>
                    (truthy (hs ''x-email-pin'') \<or> truthy (hs ''x-otp-pin''))
                    \<and> (\<forall>pin. hs ''x-email-pin'' = Some pin \<and> pin \<noteq> []
                          \<longrightarrow> validatePin g (payload_pin dto) pin)
                    \<and> (\<forall>otp. hs ''x-otp-pin'' = Some otp \<and> otp \<noteq> []
                          \<longrightarrow> fst (validateOTP lib repo (payload_id dto) otp)
                                = Inr (Some True, None))
                | OTHER v \<Rightarrow> True))
     \<and> (headers request = None \<longrightarrow> rejected r)
     \<and> (\<forall>hs. headers request = Some hs \<and> \<not> truthy (hs ''x-temporary-authorization'')
           \<longrightarrow> rejected r)
     \<and> (\<forall>hs token. headers request = Some hs
           \<and> hs ''x-temporary-authorization'' = Some token
           \<and> (\<not> isBearerToken g token \<or> \<not> isSignatureValid g token (secondarySecret g)
                \<or> map_option payload_type (payload g token) \<noteq> Some (step p))
           \<longrightarrow> rejected r)
     \<and> (\<forall>hs. headers request = Some hs
           \<and> ((requiredPin p = ONLY_EMAIL \<and> \<not> truthy (hs ''x-email-pin''))
                \<or> (requiredPin p = ONLY_OTP \<and> \<not> truthy (hs ''x-otp-pin''))
                \<or> (requiredPin p = ANY \<and> \<not> truthy (hs ''x-email-pin'')
                      \<and> \<not> truthy (hs ''x-otp-pin'')))
           \<longrightarrow> rejected r)
     \<and> (\<forall>hs token dto pin. headers request = Some hs
           \<and> hs ''x-temporary-authorization'' = Some token \<and> payload g token = Some dto
           \<and> (requiredPin p = ONLY_EMAIL \<or> requiredPin p = ANY)
           \<and> hs ''x-email-pin'' = Some pin \<and> pin \<noteq> []
           \<and> \<not> validatePin g (payload_pin dto) pin
           \<longrightarrow> rejected r)
     \<and> (\<forall>hs token dto otp. headers request = Some hs
           \<and> hs ''x-temporary-authorization'' = Some token \<and> payload g token = Some dto
           \<and> (requiredPin p = ONLY_OTP \<or> requiredPin p = ANY)
           \<and> hs ''x-otp-pin'' = Some otp \<and> otp \<noteq> []
           \<and> fst (validateOTP lib repo (payload_id dto) otp) \<noteq> Inr (Some True, None)
           \<longrightarrow> rejected r)"
proof -
  let ?r = "outcome (canActivate g lib repo (Some p) request)"
  have total: "allowed ?r \<or> rejected ?r"
    using tryBlock_result [of g lib repo p request]
    by (simp add: rejected_iff_thrown allowed_iff_returned)
  have exclusive: "rejected ?r = (\<not> allowed ?r)"
    by (rule allowed_not_rejected)
  note success = canActivate_allows_iff [of g lib repo p request]
  have no_headers: "headers request = None \<longrightarrow> rejected ?r"
    by (simp add: rejected_iff_thrown tryBlock_def)
  have no_token: "\<forall>hs. headers request = Some hs
      \<and> \<not> truthy (hs ''x-temporary-authorization'') \<longrightarrow> rejected ?r"
    using tryBlock_no_token [of request _ g lib repo p]
    by (simp add: rejected_iff_thrown)
  have bad_token: "\<forall>hs token. headers request = Some hs
      \<and> hs ''x-temporary-authorization'' = Some token
      \<and> (\<not> isBearerToken g token \<or> \<not> isSignatureValid g token (secondarySecret g)
           \<or> map_option payload_type (payload g token) \<noteq> Some (step p))
      \<longrightarrow> rejected ?r"
    using tryBlock_token_failure [of request _ _ g p lib repo]
    unfolding rejected_iff_thrown by blast
  have missing_pin: "\<forall>hs. headers request = Some hs
      \<and> ((requiredPin p = ONLY_EMAIL \<and> \<not> truthy (hs ''x-email-pin''))
           \<or> (requiredPin p = ONLY_OTP \<and> \<not> truthy (hs ''x-otp-pin''))
           \<or> (requiredPin p = ANY \<and> \<not> truthy (hs ''x-email-pin'')
                 \<and> \<not> truthy (hs ''x-otp-pin'')))
      \<longrightarrow> rejected ?r"
  proof (intro allI impI)
    fix hs
    assume a: "headers request = Some hs
      \<and> ((requiredPin p = ONLY_EMAIL \<and> \<not> truthy (hs ''x-email-pin''))
           \<or> (requiredPin p = ONLY_OTP \<and> \<not> truthy (hs ''x-otp-pin''))
           \<or> (requiredPin p = ANY \<and> \<not> truthy (hs ''x-email-pin'')
                 \<and> \<not> truthy (hs ''x-otp-pin'')))"
    then have "\<exists>thrown. fst (tryBlock g lib repo p request) = Inl thrown"
      by (intro tryBlock_switch_throws [of request hs] switch_missing_pin) simp_all
    then show "rejected ?r" by (simp add: rejected_iff_thrown)
  qed
  have bad_pin: "\<forall>hs token dto pin. headers request = Some hs
      \<and> hs ''x-temporary-authorization'' = Some token \<and> payload g token = Some dto
      \<and> (requiredPin p = ONLY_EMAIL \<or> requiredPin p = ANY)
      \<and> hs ''x-email-pin'' = Some pin \<and> pin \<noteq> []
      \<and> \<not> validatePin g (payload_pin dto) pin
      \<longrightarrow> rejected ?r"
  proof (intro allI impI)
    fix hs token dto pin
    assume a: "headers request = Some hs
      \<and> hs ''x-temporary-authorization'' = Some token \<and> payload g token = Some dto
      \<and> (requiredPin p = ONLY_EMAIL \<or> requiredPin p = ANY)
      \<and> hs ''x-email-pin'' = Some pin \<and> pin \<noteq> []
      \<and> \<not> validatePin g (payload_pin dto) pin"
    then have "\<exists>thrown. fst (switchRequiredPin g lib repo (requiredPin p) dto
        (hs ''x-email-pin'') (hs ''x-otp-pin'')) = Inl thrown"
      by (intro switch_invalid_email_pin [of _ _ pin]) simp_all
    with a tryBlock_reaches_switch [of request hs token g dto lib repo p]
    have "\<exists>thrown. fst (tryBlock g lib repo p request) = Inl thrown" by metis
    then show "rejected ?r" by (simp add: rejected_iff_thrown)
  qed
  have bad_otp: "\<forall>hs token dto otp. headers request = Some hs
      \<and> hs ''x-temporary-authorization'' = Some token \<and> payload g token = Some dto
      \<and> (requiredPin p = ONLY_OTP \<or> requiredPin p = ANY)
      \<and> hs ''x-otp-pin'' = Some otp \<and> otp \<noteq> []
      \<and> fst (validateOTP lib repo (payload_id dto) otp) \<noteq> Inr (Some True, None)
      \<longrightarrow> rejected ?r"
  proof (intro allI impI)
    fix hs token dto otp
    assume a: "headers request = Some hs
      \<and> hs ''x-temporary-authorization'' = Some token \<and> payload g token = Some dto
      \<and> (requiredPin p = ONLY_OTP \<or> requiredPin p = ANY)
      \<and> hs ''x-otp-pin'' = Some otp \<and> otp \<noteq> []
      \<and> fst (validateOTP lib repo (payload_id dto) otp) \<noteq> Inr (Some True, None)"
    then have "\<exists>thrown. fst (switchRequiredPin g lib repo (requiredPin p) dto
        (hs ''x-email-pin'') (hs ''x-otp-pin'')) = Inl thrown"
      by (intro switch_invalid_otp [of _ _ otp]) simp_all
    with a tryBlock_reaches_switch [of request hs token g dto lib repo p]
    have "\<exists>thrown. fst (tryBlock g lib repo p request) = Inl thrown" by metis
    then show "rejected ?r" by (simp add: rejected_iff_thrown)
  qed
  from total exclusive success no_headers no_token bad_token missing_pin bad_pin bad_otp
  show ?thesis unfolding Let_def by (intro conjI)
qed

text \<open>
  Three requests with a valid token for the declared step. A lookup error: the token names
  a login that is not in the repository, the OTP service faults, and the guard rejects.
  The right email pin under \<^verbatim>\<open>ONLY_EMAIL\<close> and an accepted OTP under
  \<^verbatim>\<open>ONLY_OTP\<close>: the guard allows.
\<close>

theorem canActivate_uniform_outcome_witness:
  "findOne sampleRepo ''ghost'' = None
   \<and> fst (validateOTP sampleLib sampleRepo ''ghost'' ''123456'') = Inl nullLoginRead
   \<and> rejected (outcome (canActivate sampleGuard sampleLib sampleRepo
         (Some (resetPolicy ONLY_OTP))
         (requestWith [''x-temporary-authorization'' \<mapsto> ''tok-reset-ghost'',
                       ''x-otp-pin'' \<mapsto> ''123456''])))
   \<and> allowed (outcome (canActivate sampleGuard sampleLib sampleRepo
         (Some (resetPolicy ONLY_EMAIL))
         (requestWith [''x-temporary-authorization'' \<mapsto> ''tok-reset-u1'',
                       ''x-email-pin'' \<mapsto> ''4321''])))
   \<and> allowed (outcome (canActivate sampleGuard sampleLib sampleRepo
         (Some (resetPolicy ONLY_OTP))
         (requestWith [''x-temporary-authorization'' \<mapsto> ''tok-reset-u1'',
                       ''x-otp-pin'' \<mapsto> ''OLDSECRET''])))"
proof -
  let ?hs = "[''x-temporary-authorization'' \<mapsto> ''tok-reset-ghost'', ''x-otp-pin'' \<mapsto> ''123456'']"
  let ?dto = "\<lparr>payload_type = ''reset'', payload_id = ''ghost'', payload_pin = ''4321''\<rparr>"
  let ?p = "resetPolicy ONLY_OTP"
  have hdrs: "headers (requestWith ?hs) = Some ?hs" by (simp add: requestWith_def)
  have tok: "?hs ''x-temporary-authorization'' = Some ''tok-reset-ghost''" by simp
  have dto: "payload sampleGuard ''tok-reset-ghost'' = Some ?dto"
    by (simp add: sampleGuard_simps samplePayload_def)
  have req: "requiredPin ?p = ONLY_OTP \<or> requiredPin ?p = ANY" by (simp add: resetPolicy_def)
  have otp: "?hs ''x-otp-pin'' = Some ''123456''" and ne: "''123456'' \<noteq> []" by simp_all
  have lookup: "fst (validateOTP sampleLib sampleRepo ''ghost'' ''123456'') = Inl nullLoginRead"
    by (simp add: validateOTP_def sampleRepo_ghost)
  then have invalid: "fst (validateOTP sampleLib sampleRepo (payload_id ?dto) ''123456'')
      \<noteq> Inr (Some True, None)" by simp
  from canActivate_uniform_outcome [of sampleGuard sampleLib sampleRepo ?p "requestWith ?hs"]
  have "\<forall>hs token dto otp. headers (requestWith ?hs) = Some hs
      \<and> hs ''x-temporary-authorization'' = Some token \<and> payload sampleGuard token = Some dto
      \<and> (requiredPin ?p = ONLY_OTP \<or> requiredPin ?p = ANY)
      \<and> hs ''x-otp-pin'' = Some otp \<and> otp \<noteq> []
      \<and> fst (validateOTP sampleLib sampleRepo (payload_id dto) otp) \<noteq> Inr (Some True, None)
      \<longrightarrow> rejected (outcome (canActivate sampleGuard sampleLib sampleRepo (Some ?p)
            (requestWith ?hs)))"
    unfolding Let_def by (elim conjE)
  with hdrs tok dto req otp ne invalid
  have lookup_rejected: "rejected (outcome (canActivate sampleGuard sampleLib sampleRepo (Some ?p)
      (requestWith ?hs)))" by blast
  have accepted: "fst (validateOTP sampleLib sampleRepo ''u1'' ''OLDSECRET'')
      = Inr (Some True, None)"
    by (simp add: validateOTP_def sampleRepo_u1 sampleLib_def sampleCheck_def alice_def)
  have email_allowed: "allowed (outcome (canActivate sampleGuard sampleLib sampleRepo
      (Some (resetPolicy ONLY_EMAIL))
      (requestWith [''x-temporary-authorization'' \<mapsto> ''tok-reset-u1'',
                    ''x-email-pin'' \<mapsto> ''4321''])))"
    using canActivate_uniform_outcome [of sampleGuard sampleLib sampleRepo
        "resetPolicy ONLY_EMAIL"
        "requestWith [''x-temporary-authorization'' \<mapsto> ''tok-reset-u1'',
                      ''x-email-pin'' \<mapsto> ''4321'']"]
    by (simp add: Let_def requestWith_def sampleGuard_simps samplePayload_def resetPolicy_def)
  have otp_allowed: "allowed (outcome (canActivate sampleGuard sampleLib sampleRepo
      (Some (resetPolicy ONLY_OTP))
      (requestWith [''x-temporary-authorization'' \<mapsto> ''tok-reset-u1'',
                    ''x-otp-pin'' \<mapsto> ''OLDSECRET''])))"
    using canActivate_uniform_outcome [of sampleGuard sampleLib sampleRepo
        "resetPolicy ONLY_OTP"
        "requestWith [''x-temporary-authorization'' \<mapsto> ''tok-reset-u1'',
                      ''x-otp-pin'' \<mapsto> ''OLDSECRET'']"]
      accepted
    by (simp add: Let_def requestWith_def sampleGuard_simps samplePayload_def resetPolicy_def)
  from lookup sampleRepo_ghost lookup_rejected email_allowed otp_allowed
  show ?thesis by (intro conjI)
qed

end
